theory Spec2Isabelle
  imports Main "HOL-Library.AList"
begin

section \<open>Shared vocabulary of the reconcilers\<close>

text \<open>
  Errors are values.  \<open>StatusNotFound\<close> is the API status error that
  \<open>apierrors.IsNotFound\<close> recognises; \<open>Errorf\<close> is a freshly created error
  (\<open>errors.Errorf\<close>, \<open>errors.New\<close>, \<open>fmt.Errorf\<close>, or a failure reported by a
  collaborator); \<open>Wrapf e msg\<close> is \<open>errors.Wrapf(e, msg, ...)\<close> or
  \<open>errors.Wrap(e, msg)\<close>.  An error keeps its format text; the arguments formatted into
  the text are left out.
\<close>

datatype error = StatusNotFound | Errorf string | Wrapf error string

fun IsNotFound :: "error \<Rightarrow> bool" where
  "IsNotFound StatusNotFound = True"
| "IsNotFound (Errorf _) = False"
| "IsNotFound (Wrapf _ _) = False"

text \<open>
  A function that can panic (a nil pointer dereference) either returns or panics.
\<close>

datatype 'a outcome = Return 'a | Panic

text \<open>\<open>time.Duration\<close> counts nanoseconds.\<close>

type_synonym Duration = int

definition Second :: Duration where
  "Second = 1000000000"

text \<open>\<open>reconcile.Result\<close>; \<open>Result_zero\<close> is the literal \<open>reconcile.Result{}\<close>.\<close>

record Result =
  Requeue :: bool
  RequeueAfter :: Duration

definition Result_zero :: Result where
  "Result_zero = \<lparr>Requeue = False, RequeueAfter = 0\<rparr>"

text \<open>
  Finalizers are marker strings on a resource.  The three markers this program owns
  are named constants of the API package; any other marker is \<open>OtherFinalizer\<close>.
\<close>

datatype Finalizer =
  ClusterFinalizer | VMFinalizer | SecretIdentitySetFinalizer | OtherFinalizer string

text \<open>
  \<open>controllerutil.AddFinalizer\<close> appends the marker unless it is already there;
  \<open>controllerutil.RemoveFinalizer\<close> drops every occurrence of it.
\<close>

definition AddFinalizer :: "Finalizer list \<Rightarrow> Finalizer \<Rightarrow> Finalizer list" where
  "AddFinalizer f finalizer = (if finalizer \<in> set f then f else f @ [finalizer])"

definition RemoveFinalizer :: "Finalizer list \<Rightarrow> Finalizer \<Rightarrow> Finalizer list" where
  "RemoveFinalizer f finalizer = removeAll finalizer f"

definition ContainsFinalizer :: "Finalizer list \<Rightarrow> Finalizer \<Rightarrow> bool" where
  "ContainsFinalizer f finalizer = (finalizer \<in> set f)"

text \<open>
  Conditions.  A condition has a type, a status, a reason, a severity and a message;
  the condition types, reasons and severities used by the reconcilers are named
  constants, and one reason is written as a string literal in the code.
\<close>

datatype ConditionType =
  VMProvisionedCondition | VCenterAvailableCondition | FailureDomainsAvailableCondition
| CCMAvailableCondition | CSIAvailableCondition | ControlPlaneInitializedCondition

datatype ConditionStatus = ConditionTrue | ConditionFalse | ConditionUnknown

datatype Reason =
  NoReason | DeletingReason | WaitingForStaticIPAllocationReason | VCenterUnreachableReason
| WaitingForFailureDomainStatusReason | FailureDomainsSkippedReason | ReasonLiteral string

datatype Severity =
  ConditionSeverityNone | ConditionSeverityInfo | ConditionSeverityWarning
| ConditionSeverityError

datatype Message = MessageFormat string | MessageOfError error

record Condition =
  Status :: ConditionStatus
  Reason :: Reason
  Severity :: Severity
  Message :: Message

text \<open>
  The conditions utility (\<open>conditions.MarkTrue\<close>, \<open>conditions.MarkFalse\<close>,
  \<open>conditions.IsTrue\<close>) is a library outside the repository; it upserts a condition by
  its type and does not append.  The conditions of a
  resource are therefore an association list keyed by condition type, and marking a
  condition replaces the entry of that type or adds one.  \<open>Message\<close> holds the
  message format handed to \<open>MarkFalse\<close>: a string literal of the code
  (\<open>MessageFormat\<close>) or the text of an error, \<open>err.Error()\<close> (\<open>MessageOfError\<close>).
\<close>

type_synonym Conditions = "(ConditionType \<times> Condition) list"

definition MarkTrue :: "Conditions \<Rightarrow> ConditionType \<Rightarrow> Conditions" where
  "MarkTrue cs t =
     AList.update t \<lparr>Status = ConditionTrue, Reason = NoReason,
                     Severity = ConditionSeverityNone, Message = MessageFormat []\<rparr> cs"

definition MarkFalse ::
  "Conditions \<Rightarrow> ConditionType \<Rightarrow> Reason \<Rightarrow> Severity \<Rightarrow> Message \<Rightarrow> Conditions" where
  "MarkFalse cs t reason severity msg =
     AList.update t \<lparr>Status = ConditionFalse, Reason = reason,
                     Severity = severity, Message = msg\<rparr> cs"

definition IsTrue :: "Conditions \<Rightarrow> ConditionType \<Rightarrow> bool" where
  "IsTrue cs t = (case map_of cs t of None \<Rightarrow> False | Some c \<Rightarrow> Status c = ConditionTrue)"


section \<open>The session manager\<close>

text \<open>
  The platform's client library is outside the repository.  Its objects are handles:
  a parsed endpoint, a connection (\<open>vim25.Client\<close>), the connection wrapped with its
  session manager (\<open>govmomi.Client\<close>), a finder, a datacenter reference, and the
  tag-management handle (\<open>tags.Manager\<close>) built on a REST client over the connection.
\<close>

record Userinfo =
  username :: string
  password :: string

text \<open>\<open>Userinfo.Username()\<close> of a nil \<open>*url.Userinfo\<close> is the empty string.\<close>

definition Username :: "Userinfo option \<Rightarrow> string" where
  "Username u = (case u of None \<Rightarrow> [] | Some i \<Rightarrow> username i)"

record URL =
  url_Host :: string
  url_User :: "Userinfo option"

type_synonym VimClient = nat

type_synonym Datacenter = string

type_synonym RestSession = string

datatype Manager = NewManager VimClient

record Feature =
  EnableKeepAlive :: bool
  KeepAliveDuration :: Duration

text \<open>
  \<open>govmomi.Client\<close>: the connection, and the keep-alive hook attached to its
  transport when the feature is enabled (the idle interval and the cache key the hook
  evicts when its round trip fails).  The hook runs on the transport's idle timer,
  concurrently with the callers of the session manager; only its presence is recorded.
\<close>

record GovmomiClient =
  gc_Client :: VimClient
  gc_KeepAliveHandler :: "(Duration \<times> string) option"
  gc_UserAgent :: string

record Finder =
  finder_client :: VimClient
  finder_dc :: "Datacenter option"

text \<open>
  \<open>Session\<close>.  The cache holds pointers to Session objects, and two calls return the
  same Session when they return the same pointer: \<open>ptr\<close> is the address of the object.
  The other fields are pointers as well, \<open>None\<close> is \<open>nil\<close>.
\<close>

record Session =
  ptr :: nat
  s_Client :: "GovmomiClient option"
  s_Finder :: "Finder option"
  s_datacenter :: "Datacenter option"
  s_TagManager :: "Manager option"

record Params =
  server :: string
  datacenter :: string
  userinfo :: "Userinfo option"
  thumbprint :: string
  feature :: Feature
  refreshRestClient :: bool
  caller :: string

text \<open>
  What the platform answers to the calls of the session manager.  \<open>soap_ParseURL\<close>
  and \<open>TagManager_Session\<close> return a pointer and an error, as the Go functions do.
\<close>

record Platform =
  soap_ParseURL :: "string \<Rightarrow> URL option \<times> error option"
  vim25_NewClient :: "URL \<Rightarrow> bool \<Rightarrow> string option \<Rightarrow> error + VimClient"
  Client_Login :: "VimClient \<Rightarrow> Userinfo option \<Rightarrow> error option"
  rest_Login :: "VimClient \<Rightarrow> Userinfo option \<Rightarrow> error option"
  Finder_Datacenter :: "VimClient \<Rightarrow> string \<Rightarrow> error + Datacenter"
  TagManager_Session :: "Manager \<Rightarrow> RestSession option \<times> error option"

text \<open>The calls that reach the platform, in the order they are made.\<close>

datatype PlatformCall =
  Call_TagManager_Session Manager
| Call_TagManager_Logout Manager
| Call_SessionManager_Logout VimClient
| Call_vim25_NewClient URL
| Call_Client_Login VimClient "Userinfo option"
| Call_rest_Login VimClient "Userinfo option"
| Call_Finder_Datacenter VimClient string

text \<open>
  The package state: the global \<open>sessionCache\<close> (a \<open>sync.Map\<close> from session key to
  Session pointer), the next free address for a Session object, and the calls made to
  the platform so far.
\<close>

record SessionStore =
  sessionCache :: "string \<rightharpoonup> Session"
  nextPtr :: nat
  platformCalls :: "PlatformCall list"

definition called :: "PlatformCall \<Rightarrow> SessionStore \<Rightarrow> SessionStore" where
  "called c st = st\<lparr>platformCalls := platformCalls st @ [c]\<rparr>"

text \<open>The API group and version of the resources, \<open>GroupVersion.String()\<close>.\<close>

definition GroupVersion_String :: string where
  "GroupVersion_String = ''infrastructure.cluster.x-k8s.io/v1alpha4''"

text \<open>
  The session key of \<open>GetOrCreate\<close>:
  \<open>params.server + params.userinfo.Username() + params.datacenter\<close>.
\<close>

definition sessionKey :: "Params \<Rightarrow> string" where
  "sessionKey params = server params @ Username (userinfo params) @ datacenter params"

text \<open>
  \<open>clearCache\<close>: log out the tag-management session and the platform session of the
  cached entry, if there is one (a failed logout is only logged), then delete the
  entry.
\<close>

definition clearCache :: "string \<Rightarrow> SessionStore \<Rightarrow> unit outcome \<times> SessionStore" where
  "clearCache key st =
     (case sessionCache st key of
        Some s \<Rightarrow>
          (case s_TagManager s of
             None \<Rightarrow> (Panic, st)
           | Some tm \<Rightarrow>
               let st1 = called (Call_TagManager_Logout tm) st
               in (case s_Client s of
                     None \<Rightarrow> (Panic, st1)
                   | Some c \<Rightarrow>
                       let st2 = called (Call_SessionManager_Logout (gc_Client c)) st1
                       in (Return (), st2\<lparr>sessionCache := (sessionCache st2)(key := None)\<rparr>)))
      | None \<Rightarrow> (Return (), st\<lparr>sessionCache := (sessionCache st)(key := None)\<rparr>))"

text \<open>
  \<open>newClient\<close>: connect (pinning the thumbprint when one is given, else insecure),
  attach the keep-alive hook when enabled, and log in.
\<close>

definition newClient ::
  "Platform \<Rightarrow> string \<Rightarrow> URL \<Rightarrow> string \<Rightarrow> Feature \<Rightarrow> SessionStore
     \<Rightarrow> (error + GovmomiClient) \<times> SessionStore" where
  "newClient pf key url thumbprint' feature' st =
     (let insecure = (thumbprint' = []);
          st1 = called (Call_vim25_NewClient url) st
      in case vim25_NewClient pf url insecure (if \<not> insecure then Some thumbprint' else None) of
           Inl err \<Rightarrow> (Inl err, st1)
         | Inr vimClient \<Rightarrow>
             let c = \<lparr>gc_Client = vimClient,
                      gc_KeepAliveHandler =
                        (if EnableKeepAlive feature' then Some (KeepAliveDuration feature', key)
                         else None),
                      gc_UserAgent = []\<rparr>;
                 st2 = called (Call_Client_Login vimClient (url_User url)) st1
             in (case Client_Login pf vimClient (url_User url) of
                   Some err \<Rightarrow> (Inl err, st2)
                 | None \<Rightarrow> (Inr c, st2)))"

text \<open>\<open>newManager\<close>: a REST client over the connection, logged in on its own.\<close>

definition newManager ::
  "Platform \<Rightarrow> VimClient \<Rightarrow> Userinfo option \<Rightarrow> SessionStore \<Rightarrow> (error + Manager) \<times> SessionStore" where
  "newManager pf client user st =
     (let st1 = called (Call_rest_Login client user) st
      in case rest_Login pf client user of
           Some err \<Rightarrow> (Inl err, st1)
         | None \<Rightarrow> (Inr (NewManager client), st1))"

text \<open>
  \<open>GetOrCreate\<close>, second part (from \<open>clearCache(logger, sessionKey)\<close> to the end): the
  path taken when the cached Session is not returned.
\<close>

definition GetOrCreate_create ::
  "Platform \<Rightarrow> Params \<Rightarrow> string \<Rightarrow> SessionStore
     \<Rightarrow> (error + Session) outcome \<times> SessionStore" where
  "GetOrCreate_create pf params key st =
     (case clearCache key st of
        (Panic, st1) \<Rightarrow> (Panic, st1)
      | (Return _, st1) \<Rightarrow>
          (case snd (soap_ParseURL pf (server params)) of
             Some err \<Rightarrow> (Return (Inl (Wrapf err ''error parsing vSphere URL %q'')), st1)
           | None \<Rightarrow>
           (case fst (soap_ParseURL pf (server params)) of
             None \<Rightarrow> (Return (Inl (Errorf ''error parsing vSphere URL %q'')), st1)
           | Some parsed \<Rightarrow>
               let soapURL = parsed\<lparr>url_User := userinfo params\<rparr>
               in (case newClient pf key soapURL (thumbprint params) (feature params) st1 of
                     (Inl err, st2) \<Rightarrow> (Return (Inl err), st2)
                   | (Inr client, st2) \<Rightarrow>
                       let session0 = \<lparr>ptr = nextPtr st2,
                                       s_Client = Some (client\<lparr>gc_UserAgent := GroupVersion_String\<rparr>),
                                       s_Finder = None, s_datacenter = None,
                                       s_TagManager = None\<rparr>;
                           session1 = session0\<lparr>s_Finder :=
                                        Some \<lparr>finder_client = gc_Client client, finder_dc = None\<rparr>\<rparr>
                       in (case newManager pf (gc_Client client) (url_User soapURL) st2 of
                             (Inl err, st3) \<Rightarrow>
                               (Return (Inl (Wrapf err ''unable to create tags manager'')), st3)
                           | (Inr manager, st3) \<Rightarrow>
                               let session2 = session1\<lparr>s_TagManager := Some manager\<rparr>
                               in if datacenter params \<noteq> []
                                  then
                                    let st4 = called (Call_Finder_Datacenter (gc_Client client)
                                                        (datacenter params)) st3
                                    in (case Finder_Datacenter pf (gc_Client client)
                                               (datacenter params) of
                                          Inl err \<Rightarrow>
                                            (Return (Inl (Wrapf err ''unable to find datacenter %q'')),
                                             st4)
                                        | Inr dc \<Rightarrow>
                                            let session3 = session2
                                                  \<lparr>s_datacenter := Some dc,
                                                   s_Finder := Some \<lparr>finder_client = gc_Client client,
                                                                     finder_dc = Some dc\<rparr>\<rparr>
                                            in (Return (Inr session3),
                                                st4\<lparr>sessionCache := (sessionCache st4)(key \<mapsto> session3),
                                                    nextPtr := Suc (nextPtr st4)\<rparr>))
                                  else (Return (Inr session2),
                                        st3\<lparr>sessionCache := (sessionCache st3)(key \<mapsto> session2),
                                            nextPtr := Suc (nextPtr st3)\<rparr>))))))"

text \<open>
  \<open>GetOrCreate\<close>.  On a cache hit the cached Session is returned, unless a refresh of
  the REST client was asked for and the probe \<open>s.TagManager.Session(ctx)\<close> returns a nil
  session; an error of the probe is logged and decides nothing.
\<close>

definition GetOrCreate ::
  "Platform \<Rightarrow> Params \<Rightarrow> SessionStore \<Rightarrow> (error + Session) outcome \<times> SessionStore" where
  "GetOrCreate pf params st =
     (let key = sessionKey params
      in case sessionCache st key of
           Some s \<Rightarrow>
             if refreshRestClient params
             then (case s_TagManager s of
                     None \<Rightarrow> (Panic, st)
                   | Some tm \<Rightarrow>
                       let st1 = called (Call_TagManager_Session tm) st;
                           tagManagerSession = fst (TagManager_Session pf tm)
                       in if tagManagerSession = None
                          then GetOrCreate_create pf params key st1
                          else (Return (Inr s), st1))
             else (Return (Inr s), st)
         | None \<Rightarrow> GetOrCreate_create pf params key st)"

text \<open>
  A call misses the cache when there is no entry under its key, or when a refresh was
  asked for and the probe of the cached entry returns no session.
\<close>

definition cache_miss :: "Platform \<Rightarrow> Params \<Rightarrow> SessionStore \<Rightarrow> bool" where
  "cache_miss pf params st =
     (case sessionCache st (sessionKey params) of
        None \<Rightarrow> True
      | Some s \<Rightarrow>
          refreshRestClient params \<and>
          (case s_TagManager s of
             None \<Rightarrow> False
           | Some tm \<Rightarrow> fst (TagManager_Session pf tm) = None))"

text \<open>
  A Session is fully constructed when its connection, its finder and its
  tag-management handle are all set.  The cache is well formed when every entry is
  fully constructed and was allocated before the next free address.
\<close>

definition fully_constructed :: "Session \<Rightarrow> bool" where
  "fully_constructed s \<longleftrightarrow> s_Client s \<noteq> None \<and> s_Finder s \<noteq> None \<and> s_TagManager s \<noteq> None"

definition cache_wf :: "SessionStore \<Rightarrow> bool" where
  "cache_wf st \<longleftrightarrow>
     (\<forall>k s. sessionCache st k = Some s \<longrightarrow> fully_constructed s \<and> ptr s < nextPtr st)"


text \<open>
  The steps of the second part of \<open>GetOrCreate\<close> that must succeed before a Session is
  stored, read off a stored Session \<open>s\<close>: the endpoint parses, the platform connection is
  made and authenticated, the tag-management session is authenticated, and when a
  datacenter is requested the finder resolves it and is scoped to it.
\<close>

definition create_ok :: "Platform \<Rightarrow> Params \<Rightarrow> Session \<Rightarrow> bool" where
  "create_ok pf params s \<longleftrightarrow>
     (\<exists>parsed c.
        soap_ParseURL pf (server params) = (Some parsed, None)
      \<and> vim25_NewClient pf (parsed\<lparr>url_User := userinfo params\<rparr>) (thumbprint params = [])
           (if thumbprint params \<noteq> [] then Some (thumbprint params) else None) = Inr c
      \<and> Client_Login pf c (userinfo params) = None
      \<and> rest_Login pf c (userinfo params) = None
      \<and> (case s_Client s of None \<Rightarrow> False | Some g \<Rightarrow> gc_Client g = c)
      \<and> s_TagManager s = Some (NewManager c)
      \<and> (if datacenter params \<noteq> []
         then \<exists>dc. Finder_Datacenter pf c (datacenter params) = Inr dc
                 \<and> s_datacenter s = Some dc
                 \<and> s_Finder s = Some \<lparr>finder_client = c, finder_dc = Some dc\<rparr>
         else s_datacenter s = None
                 \<and> s_Finder s = Some \<lparr>finder_client = c, finder_dc = None\<rparr>))"


section \<open>The VM reconciler\<close>

text \<open>
  A network device of the VM's desired state, and the per-interface status the
  lifecycle service observes.
\<close>

record NetworkDeviceSpec =
  DHCP4 :: bool
  DHCP6 :: bool
  IPAddrs :: "string list"

record NetworkStatus =
  ns_MACAddr :: string
  ns_IPAddrs :: "string list"

text \<open>
  The VM resource (\<open>VSphereVM\<close>).  A field is named by its path in the Go value:
  \<open>vm_Spec_BiosUUID\<close> is \<open>VSphereVM.Spec.BiosUUID\<close>, the persistent identifier.
  \<open>FailureReason\<close> and \<open>FailureMessage\<close> are pointers, \<open>None\<close> is \<open>nil\<close>.
\<close>

record VSphereVM =
  vm_Finalizers :: "Finalizer list"
  vm_Spec_BiosUUID :: string
  vm_Spec_Network_Devices :: "NetworkDeviceSpec list"
  vm_Status_FailureReason :: "string option"
  vm_Status_FailureMessage :: "string option"
  vm_Status_Network :: "NetworkStatus list"
  vm_Status_Addresses :: "string list"
  vm_Status_Ready :: bool
  vm_Status_Conditions :: Conditions

text \<open>What the lifecycle service reports about the platform's VM (\<open>VirtualMachine\<close>).\<close>

datatype VirtualMachineState =
  VirtualMachineStateNotFound | VirtualMachineStatePending | VirtualMachineStateReady
| VirtualMachineStateOther string

record VirtualMachine =
  State :: VirtualMachineState
  BiosUUID :: string
  Network :: "NetworkStatus list"

text \<open>
  Modelled from the spec: the VM Lifecycle Service (\<open>govmomi.VMService\<close>) is a
  collaborator outside the sources, with the interface
  \<open>ReconcileVM(vmSpec, session) \<rightarrow> (state, persistentID, network[], error)\<close>.
  It is a parameter of the reconciler: a function from the VM resource it is handed to
  its answer.
\<close>

record VirtualMachineService =
  ReconcileVM :: "VSphereVM \<Rightarrow> error + VirtualMachine"

text \<open>
  A reconcile pass returns \<open>(reconcile.Result, error)\<close> and leaves the resource
  mutated in place.  The model returns the result, the error (\<open>None\<close> is \<open>nil\<close>), the
  resource after the pass, and the calls made to the lifecycle service in order, each
  with the resource it was handed and its answer.
\<close>

datatype ServiceCall =
  ReconcileVMCall VSphereVM "error + VirtualMachine"

record VMPass =
  vp_result :: Result
  vp_err :: "error option"
  vp_vm :: VSphereVM
  vp_calls :: "ServiceCall list"

text \<open>
  \<open>isWaitingForStaticIPAllocation\<close>: the loop returns true at the first device that
  requests neither DHCPv4 nor DHCPv6 and has no address.
\<close>

fun isWaitingForStaticIPAllocation_devices :: "NetworkDeviceSpec list \<Rightarrow> bool" where
  "isWaitingForStaticIPAllocation_devices [] = False"
| "isWaitingForStaticIPAllocation_devices (dev # devices) =
     (if \<not> DHCP4 dev \<and> \<not> DHCP6 dev \<and> length (IPAddrs dev) = 0 then True
      else isWaitingForStaticIPAllocation_devices devices)"

definition isWaitingForStaticIPAllocation :: "VSphereVM \<Rightarrow> bool" where
  "isWaitingForStaticIPAllocation vm =
     isWaitingForStaticIPAllocation_devices (vm_Spec_Network_Devices vm)"

text \<open>
  \<open>reconcileNetwork\<close>: copy the observed per-interface status and flatten its
  addresses.
\<close>

definition reconcileNetwork :: "VSphereVM \<Rightarrow> VirtualMachine \<Rightarrow> VSphereVM" where
  "reconcileNetwork vsphereVM vm =
     (let v1 = vsphereVM\<lparr>vm_Status_Network := Network vm\<rparr>;
          ipAddrs = concat (map ns_IPAddrs (vm_Status_Network v1))
      in v1\<lparr>vm_Status_Addresses := ipAddrs\<rparr>)"

text \<open>\<open>vmReconciler.reconcileNormal\<close>.\<close>

definition vmReconciler_reconcileNormal :: "VirtualMachineService \<Rightarrow> VSphereVM \<Rightarrow> VMPass" where
  "vmReconciler_reconcileNormal vmService vsphereVM =
     (if vm_Status_FailureReason vsphereVM \<noteq> None \<or> vm_Status_FailureMessage vsphereVM \<noteq> None
      then \<lparr>vp_result = Result_zero, vp_err = None, vp_vm = vsphereVM, vp_calls = []\<rparr>
      else
        let v1 = vsphereVM\<lparr>vm_Finalizers := AddFinalizer (vm_Finalizers vsphereVM) VMFinalizer\<rparr>
        in
        if isWaitingForStaticIPAllocation v1
        then \<lparr>vp_result = Result_zero, vp_err = None,
              vp_vm = v1\<lparr>vm_Status_Conditions :=
                         MarkFalse (vm_Status_Conditions v1) VMProvisionedCondition
                           WaitingForStaticIPAllocationReason ConditionSeverityInfo
                           (MessageFormat [])\<rparr>,
              vp_calls = []\<rparr>
        else
          let answer = ReconcileVM vmService v1;
              calls = [ReconcileVMCall v1 answer]
          in
          case answer of
            Inl err \<Rightarrow>
              \<lparr>vp_result = Result_zero, vp_err = Some (Wrapf err ''failed to reconcile VM''),
               vp_vm = v1, vp_calls = calls\<rparr>
          | Inr vm \<Rightarrow>
              if State vm \<noteq> VirtualMachineStateReady
              then \<lparr>vp_result = Result_zero, vp_err = None, vp_vm = v1, vp_calls = calls\<rparr>
              else if BiosUUID vm \<noteq> []
              then
                let v2 = v1\<lparr>vm_Spec_BiosUUID := BiosUUID vm\<rparr>;
                    v3 = reconcileNetwork v2 vm
                in
                if length (vm_Status_Addresses v3) = 0
                then \<lparr>vp_result = \<lparr>Requeue = False, RequeueAfter = 10 * Second\<rparr>,
                      vp_err = None, vp_vm = v3, vp_calls = calls\<rparr>
                else
                  \<lparr>vp_result = Result_zero, vp_err = None,
                   vp_vm = v3\<lparr>vm_Status_Ready := True,
                              vm_Status_Conditions :=
                                MarkTrue (vm_Status_Conditions v3) VMProvisionedCondition\<rparr>,
                   vp_calls = calls\<rparr>
              else
                \<lparr>vp_result = Result_zero,
                 vp_err = Some (Errorf ''bios uuid is empty while VM is ready''),
                 vp_vm = v1, vp_calls = calls\<rparr>)"

section \<open>The cluster reconciler\<close>

text \<open>
  The resources the cluster reconciler reads and writes.  A field is named by its path
  in the Go value; a pointer field is an option, \<open>None\<close> is \<open>nil\<close>.
\<close>

type_synonym UID = string

text \<open>\<open>metav1.Time\<close>, in seconds; \<open>0\<close> stands for the zero time.\<close>

type_synonym Time = nat

definition Time_IsZero :: "Time option \<Rightarrow> bool" where
  "Time_IsZero t = (case t of None \<Rightarrow> True | Some s \<Rightarrow> s = 0)"

record ObjectKey =
  key_Namespace :: string
  key_Name :: string

datatype IdentityKind = VSphereClusterIdentityKind | SecretKind

record VSphereIdentityReference =
  ir_Kind :: IdentityKind
  ir_Name :: string

record APIEndpoint =
  ep_Host :: string
  ep_Port :: int

definition APIEndpoint_IsZero :: "APIEndpoint \<Rightarrow> bool" where
  "APIEndpoint_IsZero e \<longleftrightarrow> ep_Host e = [] \<and> ep_Port e = 0"

record FailureDomainSpec =
  ControlPlane :: bool

text \<open>
  \<open>clusterv1.FailureDomains\<close> is a Go map from failure-domain name to its spec.  It is
  an association list that \<open>AList.update\<close> keeps free of duplicate keys, so its length
  is the \<open>len\<close> of the map.
\<close>

type_synonym FailureDomains = "(string \<times> FailureDomainSpec) list"

record VSphereCluster =
  vc_Namespace :: string
  vc_Name :: string
  vc_Kind :: string
  vc_UID :: UID
  vc_Annotations :: "string \<rightharpoonup> string"
  vc_Finalizers :: "Finalizer list"
  vc_Spec_Server :: string
  vc_Spec_Thumbprint :: string
  vc_Spec_IdentityRef :: "VSphereIdentityReference option"
  vc_Spec_ControlPlaneEndpoint :: APIEndpoint
  vc_Status_Ready :: bool
  vc_Status_FailureDomains :: FailureDomains
  vc_Status_Conditions :: Conditions

record VSphereDeploymentZone =
  dz_Name :: string
  dz_Spec_Server :: string
  dz_Spec_ControlPlane :: "bool option"
  dz_Status_Ready :: "bool option"

record OwnerReference =
  or_APIVersion :: string
  or_Kind :: string
  or_Name :: string
  or_UID :: UID

record Secret =
  sec_Namespace :: string
  sec_Name :: string
  sec_Finalizers :: "Finalizer list"
  sec_OwnerReferences :: "OwnerReference list"

text \<open>The owning cluster (\<open>ctx.Cluster\<close>), which the pass only reads.\<close>

record Cluster =
  cl_UID :: UID
  cl_DeletionTimestamp :: "Time option"
  cl_Conditions :: Conditions

text \<open>A VM resource owned by the cluster, as the Deleting pass lists it: its name.\<close>

type_synonym VSphereMachine = string

record Credentials =
  creds_Username :: string
  creds_Password :: string

text \<open>The controller manager's settings (\<open>ControllerManagerContext\<close>).\<close>

record ControllerManagerContext =
  cm_Namespace :: string
  cm_Username :: string
  cm_Password :: string
  cm_EnableKeepAlive :: bool
  cm_KeepAliveDuration :: Duration

text \<open>
  What the collaborators of one pass answer.  The first five fields are calls of the
  orchestration store's client; \<open>IsOwnedByObject\<close> is a predicate of a library outside
  the repository.

  Modelled from the spec: \<open>GetVSphereMachinesInCluster\<close> (the helper that lists all VM
  resources owned by a cluster), \<open>GetCredentials\<close> (the Credential Resolver) and
  \<open>NewKubeClient\<close> (the client for the workload's own API endpoint) are code of the
  repository outside the sources; they are parameters of the pass, each a function from
  its arguments to its answer.
\<close>

record ClusterEnv =
  List_VSphereDeploymentZone :: "error + VSphereDeploymentZone list"
  Get_Secret :: "ObjectKey \<Rightarrow> error + Secret"
  Update_Secret :: "Secret \<Rightarrow> error option"
  Delete_Secret :: "Secret \<Rightarrow> error option"
  Nodes_List :: "error option"
  IsOwnedByObject :: "Secret \<Rightarrow> VSphereCluster \<Rightarrow> bool"
  GetVSphereMachinesInCluster :: "string \<Rightarrow> string \<Rightarrow> error + VSphereMachine list"
  GetCredentials :: "VSphereCluster \<Rightarrow> string \<Rightarrow> error + Credentials"
  NewKubeClient :: "error option"
  platform :: Platform

text \<open>The calls made on the identity secret, in order.\<close>

datatype SecretCall = GetSecret ObjectKey | UpdateSecret Secret | DeleteSecret Secret

text \<open>
  What a pass mutates: the cluster resource (\<open>ctx.VSphereCluster\<close>, patched back when
  the pass ends), the calls made on the identity secret, the session manager's package
  state, the global set \<open>apiServerTriggers\<close>, and the background pollers started (by the
  identity of their cluster).  A poller runs concurrently with the passes; the model
  records that it was started and does not follow it.
\<close>

record ClusterWorld =
  w_VSphereCluster :: VSphereCluster
  w_secretCalls :: "SecretCall list"
  w_sessions :: SessionStore
  w_apiServerTriggers :: "UID set"
  w_pollers :: "UID list"

definition mark :: "(Conditions \<Rightarrow> Conditions) \<Rightarrow> ClusterWorld \<Rightarrow> ClusterWorld" where
  "mark f w =
     w\<lparr>w_VSphereCluster :=
         (w_VSphereCluster w)\<lparr>vc_Status_Conditions :=
            f (vc_Status_Conditions (w_VSphereCluster w))\<rparr>\<rparr>"

definition secretCalled :: "SecretCall \<Rightarrow> ClusterWorld \<Rightarrow> ClusterWorld" where
  "secretCalled c w = w\<lparr>w_secretCalls := w_secretCalls w @ [c]\<rparr>"

definition addClusterFinalizer :: "ClusterWorld \<Rightarrow> ClusterWorld" where
  "addClusterFinalizer w =
     w\<lparr>w_VSphereCluster :=
         (w_VSphereCluster w)\<lparr>vc_Finalizers :=
            AddFinalizer (vc_Finalizers (w_VSphereCluster w)) ClusterFinalizer\<rparr>\<rparr>"

definition removeClusterFinalizer :: "ClusterWorld \<Rightarrow> ClusterWorld" where
  "removeClusterFinalizer w =
     w\<lparr>w_VSphereCluster :=
         (w_VSphereCluster w)\<lparr>vc_Finalizers :=
            RemoveFinalizer (vc_Finalizers (w_VSphereCluster w)) ClusterFinalizer\<rparr>\<rparr>"

text \<open>
  Modelled from the spec: \<open>identity.IsSecretIdentity\<close> is code of the repository
  outside the sources; the spec's "identity-bound secret" is a cluster that declares an
  identity reference bound to a secret.
\<close>

definition IsSecretIdentity :: "VSphereCluster \<Rightarrow> bool" where
  "IsSecretIdentity cluster =
     (case vc_Spec_IdentityRef cluster of None \<Rightarrow> False | Some r \<Rightarrow> ir_Kind r = SecretKind)"

text \<open>
  \<open>strings.Split(s, ":")\<close>, with the one-character separator as a parameter: the
  pieces of \<open>s\<close> between the separators; the empty string gives one empty piece.  The
  result is never empty, so the first branch of the inner case is never taken.
\<close>

fun Split :: "string \<Rightarrow> char \<Rightarrow> string list" where
  "Split [] sep = [[]]"
| "Split (x # xs) sep =
     (if x = sep then [] # Split xs sep
      else (case Split xs sep of [] \<Rightarrow> [[x]] | piece # pieces \<Rightarrow> (x # piece) # pieces))"

text \<open>\<open>contains\<close>.\<close>

fun contains :: "string list \<Rightarrow> string \<Rightarrow> bool" where
  "contains [] search = False"
| "contains (item # list) search = (if item = search then True else contains list search)"

text \<open>\<open>shouldIncludeZone\<close>.\<close>

definition shouldIncludeZone :: "VSphereDeploymentZone \<Rightarrow> VSphereCluster \<Rightarrow> bool" where
  "shouldIncludeZone zone cluster =
     (case vc_Annotations cluster ''vsphere.infrastructure.cluster.x-k8s.io/adopt-deploymentzone'' of
        None \<Rightarrow> False
      | Some deploymentZones \<Rightarrow>
          let deploymentZonesList = Split deploymentZones CHR '':''
          in dz_Spec_Server zone = vc_Spec_Server cluster
             \<and> contains deploymentZonesList (dz_Name zone))"

text \<open>
  The loop of \<open>reconcileDeploymentZones\<close> over the listed zones, with its three local
  variables \<open>readyNotReported\<close>, \<open>notReady\<close> and \<open>failureDomains\<close>.  Dereferencing a nil
  \<open>zone.Spec.ControlPlane\<close> panics.
\<close>

fun reconcileDeploymentZones_loop ::
  "VSphereCluster \<Rightarrow> VSphereDeploymentZone list \<Rightarrow> nat \<times> nat \<times> FailureDomains
     \<Rightarrow> (nat \<times> nat \<times> FailureDomains) outcome" where
  "reconcileDeploymentZones_loop cluster [] acc = Return acc"
| "reconcileDeploymentZones_loop cluster (zone # zones) (readyNotReported, notReady, failureDomains) =
     (if shouldIncludeZone zone cluster
      then (case dz_Status_Ready zone of
              None \<Rightarrow>
                (case dz_Spec_ControlPlane zone of
                   None \<Rightarrow> Panic
                 | Some cp \<Rightarrow>
                     reconcileDeploymentZones_loop cluster zones
                       (readyNotReported + 1, notReady,
                        AList.update (dz_Name zone) \<lparr>ControlPlane = cp\<rparr> failureDomains))
            | Some ready \<Rightarrow>
                if ready
                then (case dz_Spec_ControlPlane zone of
                        None \<Rightarrow> Panic
                      | Some cp \<Rightarrow>
                          reconcileDeploymentZones_loop cluster zones
                            (readyNotReported, notReady,
                             AList.update (dz_Name zone) \<lparr>ControlPlane = cp\<rparr> failureDomains))
                else reconcileDeploymentZones_loop cluster zones
                       (readyNotReported, notReady + 1, failureDomains))
      else reconcileDeploymentZones_loop cluster zones
             (readyNotReported, notReady, failureDomains))"

text \<open>\<open>reconcileDeploymentZones\<close>.\<close>

definition reconcileDeploymentZones ::
  "ClusterEnv \<Rightarrow> ClusterWorld \<Rightarrow> (bool \<times> error option) outcome \<times> ClusterWorld" where
  "reconcileDeploymentZones env w =
     (case List_VSphereDeploymentZone env of
        Inl err \<Rightarrow> (Return (False, Some (Wrapf err ''unable to list deployment zones'')), w)
      | Inr items \<Rightarrow>
          (case reconcileDeploymentZones_loop (w_VSphereCluster w) items (0, 0, []) of
             Panic \<Rightarrow> (Panic, w)
           | Return (readyNotReported, notReady, failureDomains) \<Rightarrow>
               let w1 = w\<lparr>w_VSphereCluster :=
                           (w_VSphereCluster w)\<lparr>vc_Status_FailureDomains := failureDomains\<rparr>\<rparr>
               in if readyNotReported > 0
                  then (Return (False, None),
                        mark (\<lambda>cs. MarkFalse cs FailureDomainsAvailableCondition
                                WaitingForFailureDomainStatusReason ConditionSeverityInfo
                                (MessageFormat ''waiting for failure domains to report ready status''))
                          w1)
                  else if length failureDomains > 0
                  then (if notReady > 0
                        then (Return (True, None),
                              mark (\<lambda>cs. MarkFalse cs FailureDomainsAvailableCondition
                                      FailureDomainsSkippedReason ConditionSeverityInfo
                                      (MessageFormat ''one or more failure domains are not ready''))
                                w1)
                        else (Return (True, None),
                              mark (\<lambda>cs. MarkTrue cs FailureDomainsAvailableCondition) w1))
                  else (Return (True, None), w1)))"

text \<open>\<open>reconcileIdentitySecret\<close>.\<close>

definition reconcileIdentitySecret ::
  "ClusterEnv \<Rightarrow> ClusterWorld \<Rightarrow> error option outcome \<times> ClusterWorld" where
  "reconcileIdentitySecret env w =
     (let vsphereCluster = w_VSphereCluster w
      in if IsSecretIdentity vsphereCluster
         then (case vc_Spec_IdentityRef vsphereCluster of
                 None \<Rightarrow> (Panic, w)
               | Some identityRef \<Rightarrow>
                   let secretKey = \<lparr>key_Namespace = vc_Namespace vsphereCluster,
                                    key_Name = ir_Name identityRef\<rparr>;
                       w1 = secretCalled (GetSecret secretKey) w
                   in (case Get_Secret env secretKey of
                         Inl err \<Rightarrow> (Return (Some err), w1)
                       | Inr secret \<Rightarrow>
                           if \<not> IsOwnedByObject env secret vsphereCluster
                              \<and> length (sec_OwnerReferences secret) > 0
                           then (Return (Some (Errorf
                                   ''another cluster has set the OwnerRef for secret: %s/%s'')), w1)
                           else
                             let secret1 =
                                   (if \<not> IsOwnedByObject env secret vsphereCluster
                                    then secret\<lparr>sec_OwnerReferences :=
                                           [\<lparr>or_APIVersion = GroupVersion_String,
                                             or_Kind = vc_Kind vsphereCluster,
                                             or_Name = vc_Name vsphereCluster,
                                             or_UID = vc_UID vsphereCluster\<rparr>]\<rparr>
                                    else secret);
                                 secret2 =
                                   (if \<not> ContainsFinalizer (sec_Finalizers secret1)
                                            SecretIdentitySetFinalizer
                                    then secret1\<lparr>sec_Finalizers :=
                                           AddFinalizer (sec_Finalizers secret1)
                                             SecretIdentitySetFinalizer\<rparr>
                                    else secret1);
                                 w2 = secretCalled (UpdateSecret secret2) w1
                             in (case Update_Secret env secret2 of
                                   Some err \<Rightarrow> (Return (Some err), w2)
                                 | None \<Rightarrow> (Return None, w2))))
         else (Return None, w))"

text \<open>
  \<open>reconcileVCenterConnectivity\<close>.  The parameters are the ones the builder calls
  leave: server, thumbprint, feature, caller and user are set, the datacenter is empty
  and no refresh is requested.
\<close>

definition reconcileVCenterConnectivity ::
  "ClusterEnv \<Rightarrow> ControllerManagerContext \<Rightarrow> ClusterWorld
     \<Rightarrow> error option outcome \<times> ClusterWorld" where
  "reconcileVCenterConnectivity env r w =
     (let vsphereCluster = w_VSphereCluster w;
          params = \<lparr>server = vc_Spec_Server vsphereCluster, datacenter = [], userinfo = None,
                    thumbprint = vc_Spec_Thumbprint vsphereCluster,
                    feature = \<lparr>EnableKeepAlive = cm_EnableKeepAlive r,
                               KeepAliveDuration = cm_KeepAliveDuration r\<rparr>,
                    refreshRestClient = False, caller = ''clusterReconciler''\<rparr>
      in if vc_Spec_IdentityRef vsphereCluster \<noteq> None
         then (case GetCredentials env vsphereCluster (cm_Namespace r) of
                 Inl err \<Rightarrow> (Return (Some err), w)
               | Inr creds \<Rightarrow>
                   let params1 = params\<lparr>userinfo :=
                                   Some \<lparr>username = creds_Username creds,
                                         password = creds_Password creds\<rparr>\<rparr>
                   in (case GetOrCreate (platform env) params1 (w_sessions w) of
                         (Panic, st) \<Rightarrow> (Panic, w\<lparr>w_sessions := st\<rparr>)
                       | (Return (Inl err), st) \<Rightarrow> (Return (Some err), w\<lparr>w_sessions := st\<rparr>)
                       | (Return (Inr _), st) \<Rightarrow> (Return None, w\<lparr>w_sessions := st\<rparr>)))
         else
           let params1 = params\<lparr>userinfo :=
                           Some \<lparr>username = cm_Username r, password = cm_Password r\<rparr>\<rparr>
           in (case GetOrCreate (platform env) params1 (w_sessions w) of
                 (Panic, st) \<Rightarrow> (Panic, w\<lparr>w_sessions := st\<rparr>)
               | (Return (Inl err), st) \<Rightarrow> (Return (Some err), w\<lparr>w_sessions := st\<rparr>)
               | (Return (Inr _), st) \<Rightarrow> (Return None, w\<lparr>w_sessions := st\<rparr>)))"

text \<open>
  \<open>reconcileVSphereClusterWhenAPIServerIsOnline\<close>: start one background poller per
  cluster identity, unless the control plane is initialized or a poller is already
  registered in \<open>apiServerTriggers\<close>.
\<close>

definition reconcileVSphereClusterWhenAPIServerIsOnline ::
  "Cluster \<Rightarrow> ClusterWorld \<Rightarrow> ClusterWorld" where
  "reconcileVSphereClusterWhenAPIServerIsOnline cluster w =
     (if IsTrue (cl_Conditions cluster) ControlPlaneInitializedCondition then w
      else if cl_UID cluster \<in> w_apiServerTriggers w then w
      else w\<lparr>w_apiServerTriggers := insert (cl_UID cluster) (w_apiServerTriggers w),
             w_pollers := w_pollers w @ [cl_UID cluster]\<rparr>)"

text \<open>\<open>isAPIServerOnline\<close>.\<close>

definition isAPIServerOnline :: "ClusterEnv \<Rightarrow> bool" where
  "isAPIServerOnline env =
     (if NewKubeClient env = None then (if Nodes_List env = None then True else False) else False)"

text \<open>\<open>clusterReconciler.reconcileNormal\<close>.\<close>

definition clusterReconciler_reconcileNormal ::
  "ClusterEnv \<Rightarrow> ControllerManagerContext \<Rightarrow> Cluster \<Rightarrow> ClusterWorld
     \<Rightarrow> (Result \<times> error option) outcome \<times> ClusterWorld" where
  "clusterReconciler_reconcileNormal env r cluster w =
     (case reconcileDeploymentZones env (addClusterFinalizer w) of
           (Panic, w2) \<Rightarrow> (Panic, w2)
         | (Return (ok, Some err), w2) \<Rightarrow> (Return (Result_zero, Some err), w2)
         | (Return (ok, None), w2) \<Rightarrow>
             if \<not> ok
             then (Return (\<lparr>Requeue = False, RequeueAfter = 10 * Second\<rparr>, None), w2)
             else
               (case reconcileIdentitySecret env w2 of
                  (Panic, w3) \<Rightarrow> (Panic, w3)
                | (Return (Some err), w3) \<Rightarrow>
                    (Return (Result_zero, Some err),
                     mark (\<lambda>cs. MarkFalse cs VCenterAvailableCondition VCenterUnreachableReason
                             ConditionSeverityError (MessageOfError err)) w3)
                | (Return None, w3) \<Rightarrow>
                    (case reconcileVCenterConnectivity env r w3 of
                       (Panic, w4) \<Rightarrow> (Panic, w4)
                     | (Return (Some err), w4) \<Rightarrow>
                         (Return (Result_zero,
                            Some (Wrapf err ''unexpected error while probing vcenter for %s'')),
                          mark (\<lambda>cs. MarkFalse cs VCenterAvailableCondition VCenterUnreachableReason
                                  ConditionSeverityError (MessageOfError err)) w4)
                     | (Return None, w4) \<Rightarrow>
                         let w5 = mark (\<lambda>cs. MarkTrue cs VCenterAvailableCondition) w4;
                             w6 = w5\<lparr>w_VSphereCluster :=
                                      (w_VSphereCluster w5)\<lparr>vc_Status_Ready := True\<rparr>\<rparr>;
                             w7 = reconcileVSphereClusterWhenAPIServerIsOnline cluster w6
                         in if APIEndpoint_IsZero
                                 (vc_Spec_ControlPlaneEndpoint (w_VSphereCluster w7))
                            then (Return (Result_zero, None), w7)
                            else if \<not> Time_IsZero (cl_DeletionTimestamp cluster)
                            then (Return (Result_zero, None),
                                  mark (\<lambda>cs. MarkFalse
                                          (MarkFalse cs CCMAvailableCondition DeletingReason
                                             ConditionSeverityInfo (MessageFormat []))
                                          CSIAvailableCondition DeletingReason
                                          ConditionSeverityInfo (MessageFormat [])) w7)
                            else if \<not> isAPIServerOnline env
                            then (Return (Result_zero, None), w7)
                            else (Return (Result_zero, None),
                                  mark (\<lambda>cs. MarkTrue cs CSIAvailableCondition) w7))))"

text \<open>\<open>clusterReconciler.reconcileDelete\<close>.\<close>

definition clusterReconciler_reconcileDelete ::
  "ClusterEnv \<Rightarrow> ClusterWorld \<Rightarrow> (Result \<times> error option) outcome \<times> ClusterWorld" where
  "clusterReconciler_reconcileDelete env w =
     (let w1 = mark (\<lambda>cs. MarkFalse
                      (MarkFalse cs CCMAvailableCondition DeletingReason
                         ConditionSeverityInfo (MessageFormat []))
                      CSIAvailableCondition DeletingReason
                      ConditionSeverityInfo (MessageFormat [])) w;
          vsphereCluster = w_VSphereCluster w1
      in case GetVSphereMachinesInCluster env (vc_Namespace vsphereCluster) (vc_Name vsphereCluster) of
           Inl err \<Rightarrow>
             (Return (Result_zero,
                Some (Wrapf err ''unable to list VSphereMachines part of VSphereCluster %s/%s'')),
              w1)
         | Inr vsphereMachines \<Rightarrow>
             if length vsphereMachines > 0
             then (Return (\<lparr>Requeue = False, RequeueAfter = 10 * Second\<rparr>, None), w1)
             else if IsSecretIdentity vsphereCluster
             then (case vc_Spec_IdentityRef vsphereCluster of
                     None \<Rightarrow> (Panic, w1)
                   | Some identityRef \<Rightarrow>
                       let secretKey = \<lparr>key_Namespace = vc_Namespace vsphereCluster,
                                        key_Name = ir_Name identityRef\<rparr>;
                           w2 = secretCalled (GetSecret secretKey) w1
                       in (case Get_Secret env secretKey of
                             Inl err \<Rightarrow>
                               if IsNotFound err
                               then (Return (Result_zero, None), removeClusterFinalizer w2)
                               else (Return (Result_zero, Some err), w2)
                           | Inr secret \<Rightarrow>
                               let secret1 = secret\<lparr>sec_Finalizers :=
                                               RemoveFinalizer (sec_Finalizers secret)
                                                 SecretIdentitySetFinalizer\<rparr>;
                                   w3 = secretCalled (UpdateSecret secret1) w2
                               in (case Update_Secret env secret1 of
                                     Some err \<Rightarrow> (Return (Result_zero, Some err), w3)
                                   | None \<Rightarrow>
                                       let w4 = secretCalled (DeleteSecret secret1) w3
                                       in (case Delete_Secret env secret1 of
                                             Some err \<Rightarrow> (Return (Result_zero, Some err), w4)
                                           | None \<Rightarrow>
                                               (Return (Result_zero, None),
                                                removeClusterFinalizer w4)))))
             else (Return (Result_zero, None), removeClusterFinalizer w1))"

text \<open>
  The orchestration layer runs a Deleting pass on every trigger.  \<open>deleting_passes\<close>
  runs one pass after the other on the same cluster resource, each pass with the answers
  its collaborators give at that time; a pass that panics ends the run.
\<close>

fun deleting_passes :: "ClusterEnv list \<Rightarrow> ClusterWorld \<Rightarrow> ClusterWorld" where
  "deleting_passes [] w = w"
| "deleting_passes (env # envs) w =
     (case clusterReconciler_reconcileDelete env w of
        (Panic, w1) \<Rightarrow> w1
      | (Return _, w1) \<Rightarrow> deleting_passes envs w1)"


section \<open>Example inputs\<close>

text \<open>Session stores, platforms and parameters.\<close>

definition empty_store :: SessionStore where
  "empty_store = \<lparr>sessionCache = Map.empty, nextPtr = 0, platformCalls = []\<rparr>"

definition platform_ok :: Platform where
  "platform_ok =
     \<lparr>soap_ParseURL = (\<lambda>s. (Some \<lparr>url_Host = s, url_User = None\<rparr>, None)),
      vim25_NewClient = (\<lambda>url insecure tp. Inr (length (url_Host url))),
      Client_Login = (\<lambda>c u. None),
      rest_Login = (\<lambda>c u. None),
      Finder_Datacenter = (\<lambda>c dc. Inr dc),
      TagManager_Session = (\<lambda>tm. (None, None))\<rparr>"


definition platform_no_datacenter :: Platform where
  "platform_no_datacenter =
     platform_ok\<lparr>Finder_Datacenter := (\<lambda>c dc. Inl (Errorf ''datacenter not found''))\<rparr>"

definition no_keep_alive :: Feature where
  "no_keep_alive = \<lparr>EnableKeepAlive = False, KeepAliveDuration = 0\<rparr>"

definition params_ab_c :: Params where
  "params_ab_c =
     \<lparr>server = ''ab'', datacenter = [], userinfo = Some \<lparr>username = ''c'', password = ''pw''\<rparr>,
      thumbprint = [], feature = no_keep_alive, refreshRestClient = False, caller = ''vmReconciler''\<rparr>"

definition params_a_bc :: Params where
  "params_a_bc =
     \<lparr>server = ''a'', datacenter = [], userinfo = Some \<lparr>username = ''bc'', password = ''pw''\<rparr>,
      thumbprint = [], feature = no_keep_alive, refreshRestClient = False, caller = ''vmReconciler''\<rparr>"

definition session_ab_c :: Session where
  "session_ab_c =
     \<lparr>ptr = 0,
      s_Client = Some \<lparr>gc_Client = 2, gc_KeepAliveHandler = None, gc_UserAgent = GroupVersion_String\<rparr>,
      s_Finder = Some \<lparr>finder_client = 2, finder_dc = None\<rparr>,
      s_datacenter = None,
      s_TagManager = Some (NewManager 2)\<rparr>"



definition params_dc :: Params where
  "params_dc = params_ab_c\<lparr>datacenter := ''dc1''\<rparr>"

text \<open>VM resources and lifecycle services.\<close>

definition example_vm :: VSphereVM where
  "example_vm =
     \<lparr>vm_Finalizers = [VMFinalizer], vm_Spec_BiosUUID = ''abc'',
      vm_Spec_Network_Devices = [\<lparr>DHCP4 = True, DHCP6 = False, IPAddrs = []\<rparr>],
      vm_Status_FailureReason = None, vm_Status_FailureMessage = None,
      vm_Status_Network = [], vm_Status_Addresses = [], vm_Status_Ready = False,
      vm_Status_Conditions = []\<rparr>"

definition service_ready_empty :: VirtualMachineService where
  "service_ready_empty =
     \<lparr>ReconcileVM = (\<lambda>_. Inr \<lparr>State = VirtualMachineStateReady, BiosUUID = [], Network = []\<rparr>)\<rparr>"

definition service_ready_xyz :: VirtualMachineService where
  "service_ready_xyz =
     \<lparr>ReconcileVM = (\<lambda>_. Inr \<lparr>State = VirtualMachineStateReady, BiosUUID = ''xyz'',
         Network = [\<lparr>ns_MACAddr = ''00:50:56:00:00:01'', ns_IPAddrs = [''10.0.0.7'']\<rparr>]\<rparr>)\<rparr>"




section \<open>Properties of the session manager\<close>

lemma called_simps [simp]:
  "sessionCache (called c st) = sessionCache st"
  "nextPtr (called c st) = nextPtr st"
  "platformCalls (called c st) = platformCalls st @ [c]"
  by (simp_all add: called_def)

lemma clearCache_wf:
  assumes "cache_wf st"
  shows "\<exists>st1. clearCache key st = (Return (), st1)
           \<and> sessionCache st1 = (sessionCache st)(key := None)
           \<and> nextPtr st1 = nextPtr st
           \<and> (\<exists>rest. platformCalls st1 = platformCalls st @ rest)"
proof (cases "sessionCache st key")
  case None
  then show ?thesis by (simp add: clearCache_def)
next
  case (Some s)
  with assms have "fully_constructed s" by (auto simp: cache_wf_def)
  then obtain tm c where "s_TagManager s = Some tm" "s_Client s = Some c"
    by (auto simp: fully_constructed_def)
  with Some show ?thesis by (simp add: clearCache_def Let_def)
qed

lemma newClient_frame:
  "newClient pf key url tp ft st = (r, st') \<Longrightarrow>
     sessionCache st' = sessionCache st \<and> nextPtr st' = nextPtr st
     \<and> (\<exists>rest. platformCalls st' = platformCalls st @ rest)"
  by (auto simp: newClient_def Let_def split: sum.splits option.splits)

lemma newClient_Inr:
  "newClient pf key url tp ft st = (Inr c, st') \<Longrightarrow>
     vim25_NewClient pf url (tp = []) (if tp \<noteq> [] then Some tp else None) = Inr (gc_Client c)
     \<and> Client_Login pf (gc_Client c) (url_User url) = None"
  by (auto simp: newClient_def Let_def split: sum.splits option.splits)

lemma newManager_frame:
  "newManager pf client user st = (r, st') \<Longrightarrow>
     sessionCache st' = sessionCache st \<and> nextPtr st' = nextPtr st
     \<and> (\<exists>rest. platformCalls st' = platformCalls st @ rest)"
  by (auto simp: newManager_def Let_def split: option.splits)

lemma newManager_Inr:
  "newManager pf client user st = (Inr m, st') \<Longrightarrow>
     rest_Login pf client user = None \<and> m = NewManager client"
  by (auto simp: newManager_def Let_def split: option.splits)

lemma create_cases:
  assumes wf: "cache_wf st"
  shows "(\<exists>e st'. GetOrCreate_create pf params key st = (Return (Inl e), st')
            \<and> sessionCache st' = (sessionCache st)(key := None)
            \<and> nextPtr st' = nextPtr st
            \<and> (\<exists>rest. platformCalls st' = platformCalls st @ rest))
       \<or> (\<exists>s st'. GetOrCreate_create pf params key st = (Return (Inr s), st')
            \<and> sessionCache st' = (sessionCache st)(key \<mapsto> s)
            \<and> nextPtr st' = Suc (nextPtr st)
            \<and> ptr s = nextPtr st
            \<and> fully_constructed s
            \<and> create_ok pf params s
            \<and> (\<exists>rest. platformCalls st' = platformCalls st @ rest))"
proof -
  from clearCache_wf [OF wf, of key] obtain st1 where
    cc: "clearCache key st = (Return (), st1)"
    and c1: "sessionCache st1 = (sessionCache st)(key := None)"
    and n1: "nextPtr st1 = nextPtr st"
    and p1: "\<exists>rest. platformCalls st1 = platformCalls st @ rest"
    by blast
  obtain u perr where pu: "soap_ParseURL pf (server params) = (u, perr)"
    by (cases "soap_ParseURL pf (server params)")
  then have pu1: "fst (soap_ParseURL pf (server params)) = u"
    and pu2: "snd (soap_ParseURL pf (server params)) = perr" by simp_all
  show ?thesis
  proof (cases perr)
    case (Some e)
    with cc pu pu1 pu2 c1 n1 p1 show ?thesis
      by (simp add: GetOrCreate_create_def)
  next
    case None
    note perr_none = None
    show ?thesis
    proof (cases u)
      case None
      with cc pu pu1 pu2 perr_none c1 n1 p1 show ?thesis
        by (simp add: GetOrCreate_create_def)
    next
      case (Some parsed)
      define soapURL where "soapURL = parsed\<lparr>url_User := userinfo params\<rparr>"
      obtain r2 st2 where nc: "newClient pf key soapURL (thumbprint params) (feature params) st1 = (r2, st2)"
        by (cases "newClient pf key soapURL (thumbprint params) (feature params) st1")
      from newClient_frame [OF nc] c1 n1 p1 have
        c2: "sessionCache st2 = (sessionCache st)(key := None)"
        and n2: "nextPtr st2 = nextPtr st"
        and p2: "\<exists>rest. platformCalls st2 = platformCalls st @ rest"
        by auto
      show ?thesis
      proof (cases r2)
        case (Inl e)
        with cc pu pu1 pu2 perr_none Some nc c2 n2 p2 show ?thesis
          by (simp add: GetOrCreate_create_def soapURL_def)
      next
        case (Inr client)
        from newClient_Inr [OF nc [unfolded Inr]] have
          v: "vim25_NewClient pf soapURL (thumbprint params = [])
                (if thumbprint params \<noteq> [] then Some (thumbprint params) else None) = Inr (gc_Client client)"
          and l: "Client_Login pf (gc_Client client) (userinfo params) = None"
          by (simp_all add: soapURL_def)
        obtain r3 st3 where nm: "newManager pf (gc_Client client) (url_User soapURL) st2 = (r3, st3)"
          by (cases "newManager pf (gc_Client client) (url_User soapURL) st2")
        from newManager_frame [OF nm] c2 n2 p2 have
          c3: "sessionCache st3 = (sessionCache st)(key := None)"
          and n3: "nextPtr st3 = nextPtr st"
          and p3: "\<exists>rest. platformCalls st3 = platformCalls st @ rest"
          by auto
        show ?thesis
        proof (cases r3)
          case (Inl e)
          with cc pu pu1 pu2 perr_none Some nc Inr nm c3 n3 p3 show ?thesis
            by (simp add: GetOrCreate_create_def soapURL_def Let_def)
        next
          case (Inr manager)
          note mgr = Inr
          from newManager_Inr [OF nm [unfolded Inr]] have
            rl: "rest_Login pf (gc_Client client) (userinfo params) = None"
            and m: "manager = NewManager (gc_Client client)"
            by (simp_all add: soapURL_def)
          show ?thesis
          proof (cases "datacenter params \<noteq> []")
            case False
            with cc pu pu1 pu2 perr_none Some nc \<open>r2 = Inr client\<close> nm mgr c3 n3 p3 n2 v l rl m show ?thesis
              by (auto simp: GetOrCreate_create_def soapURL_def Let_def fully_constructed_def
                  create_ok_def)
          next
            case True
            show ?thesis
            proof (cases "Finder_Datacenter pf (gc_Client client) (datacenter params)")
              case (Inl e)
              with True cc pu pu1 pu2 perr_none Some nc \<open>r2 = Inr client\<close> nm mgr c3 n3 p3 show ?thesis
                by (auto simp: GetOrCreate_create_def soapURL_def Let_def)
            next
              case (Inr dc)
              with True cc pu pu1 pu2 perr_none Some nc \<open>r2 = Inr client\<close> nm mgr c3 n3 p3 n2 v l rl m
              show ?thesis
                by (auto simp: GetOrCreate_create_def soapURL_def Let_def fully_constructed_def
                    create_ok_def)
            qed
          qed
        qed
      qed
    qed
  qed
qed

lemmas session_defs =
  GetOrCreate_def GetOrCreate_create_def clearCache_def newClient_def newManager_def
  called_def sessionKey_def Username_def Let_def

lemma cache_wf_empty_store: "cache_wf empty_store"
  by (simp add: cache_wf_def empty_store_def)


lemma GetOrCreate_cases:
  assumes wf: "cache_wf st"
  shows "(\<exists>s. GetOrCreate pf params st = (Return (Inr s), st)
              \<and> sessionCache st (sessionKey params) = Some s
              \<and> \<not> refreshRestClient params)
       \<or> (\<exists>s tm. GetOrCreate pf params st = (Return (Inr s), called (Call_TagManager_Session tm) st)
              \<and> sessionCache st (sessionKey params) = Some s
              \<and> refreshRestClient params \<and> s_TagManager s = Some tm
              \<and> fst (TagManager_Session pf tm) \<noteq> None)
       \<or> (\<exists>s tm. GetOrCreate pf params st =
                    GetOrCreate_create pf params (sessionKey params)
                      (called (Call_TagManager_Session tm) st)
              \<and> sessionCache st (sessionKey params) = Some s
              \<and> refreshRestClient params \<and> s_TagManager s = Some tm
              \<and> fst (TagManager_Session pf tm) = None)
       \<or> (GetOrCreate pf params st = GetOrCreate_create pf params (sessionKey params) st
              \<and> sessionCache st (sessionKey params) = None)"
proof (cases "sessionCache st (sessionKey params)")
  case None
  then show ?thesis by (simp add: GetOrCreate_def)
next
  case (Some s)
  with wf have "fully_constructed s" by (auto simp: cache_wf_def)
  then obtain tm where "s_TagManager s = Some tm" by (auto simp: fully_constructed_def)
  with Some show ?thesis by (simp add: GetOrCreate_def Let_def)
qed

lemma cache_wf_called: "cache_wf (called c st) = cache_wf st"
  by (simp add: cache_wf_def)




text \<open>
  C7.  With a well-formed cache, \<open>GetOrCreate\<close> never panics; whenever it returns an
  error nothing is stored under the key; a call that misses the cache with a non-empty
  datacenter the finder cannot resolve returns an error; a call that misses the cache and
  returns a Session has stored that Session under the key after the endpoint parsed, the
  platform connection was made and authenticated, the tag-management session was
  authenticated and, when requested, the datacenter was resolved and the finder scoped to
  it; and the cache stays well formed, so it never holds a partially constructed Session.
\<close>

theorem C7_cache_holds_only_complete_sessions:
  assumes wf: "cache_wf st"
  shows "fst (GetOrCreate pf params st) \<noteq> Panic
       \<and> (\<forall>err. fst (GetOrCreate pf params st) = Return (Inl err) \<longrightarrow>
              sessionCache (snd (GetOrCreate pf params st)) (sessionKey params) = None)
       \<and> (cache_miss pf params st \<and> datacenter params \<noteq> []
            \<and> (\<forall>c. isl (Finder_Datacenter pf c (datacenter params))) \<longrightarrow>
              (\<exists>err. fst (GetOrCreate pf params st) = Return (Inl err)))
       \<and> (cache_miss pf params st \<longrightarrow>
            (\<forall>s. fst (GetOrCreate pf params st) = Return (Inr s) \<longrightarrow>
               sessionCache (snd (GetOrCreate pf params st)) (sessionKey params) = Some s
               \<and> fully_constructed s \<and> create_ok pf params s))
       \<and> cache_wf (snd (GetOrCreate pf params st))"
proof -
  have create: "fst (GetOrCreate_create pf params (sessionKey params) st0) \<noteq> Panic
       \<and> (\<forall>err. fst (GetOrCreate_create pf params (sessionKey params) st0) = Return (Inl err) \<longrightarrow>
              sessionCache (snd (GetOrCreate_create pf params (sessionKey params) st0)) (sessionKey params) = None)
       \<and> (datacenter params \<noteq> []
            \<and> (\<forall>c. isl (Finder_Datacenter pf c (datacenter params))) \<longrightarrow>
              (\<exists>err. fst (GetOrCreate_create pf params (sessionKey params) st0) = Return (Inl err)))
       \<and> (\<forall>s. fst (GetOrCreate_create pf params (sessionKey params) st0) = Return (Inr s) \<longrightarrow>
               sessionCache (snd (GetOrCreate_create pf params (sessionKey params) st0)) (sessionKey params) = Some s
               \<and> fully_constructed s \<and> create_ok pf params s)
       \<and> cache_wf (snd (GetOrCreate_create pf params (sessionKey params) st0))"
    if wf0: "cache_wf st0" for st0
    using create_cases [OF wf0, of pf params "sessionKey params"]
  proof (elim disjE exE conjE)
    fix e st'
    assume "GetOrCreate_create pf params (sessionKey params) st0 = (Return (Inl e), st')"
      "sessionCache st' = (sessionCache st0)(sessionKey params := None)"
      "nextPtr st' = nextPtr st0"
    with wf0 show ?thesis by (auto simp: cache_wf_def split: if_splits)
  next
    fix s st'
    assume a: "GetOrCreate_create pf params (sessionKey params) st0 = (Return (Inr s), st')"
      "sessionCache st' = (sessionCache st0)(sessionKey params \<mapsto> s)"
      "nextPtr st' = Suc (nextPtr st0)" "ptr s = nextPtr st0"
      "fully_constructed s" "create_ok pf params s"
    then have "cache_wf st'"
      using wf0 by (fastforce simp: cache_wf_def split: if_splits)
    moreover have "\<not> (datacenter params \<noteq> [] \<and> (\<forall>c. isl (Finder_Datacenter pf c (datacenter params))))"
    proof
      assume h: "datacenter params \<noteq> [] \<and> (\<forall>c. isl (Finder_Datacenter pf c (datacenter params)))"
      with a(6) obtain c dc where "Finder_Datacenter pf c (datacenter params) = Inr dc"
        by (auto simp: create_ok_def)
      moreover from h have "isl (Finder_Datacenter pf c (datacenter params))" by blast
      ultimately show False by simp
    qed
    ultimately show ?thesis using a by auto
  qed
  from GetOrCreate_cases [OF wf, of pf params] show ?thesis
  proof (elim disjE exE conjE)
    fix s
    assume "GetOrCreate pf params st = (Return (Inr s), st)"
      "sessionCache st (sessionKey params) = Some s" "\<not> refreshRestClient params"
    with wf show ?thesis by (simp add: cache_miss_def)
  next
    fix s tm
    assume "GetOrCreate pf params st = (Return (Inr s), called (Call_TagManager_Session tm) st)"
      "sessionCache st (sessionKey params) = Some s" "refreshRestClient params"
      "s_TagManager s = Some tm" "fst (TagManager_Session pf tm) \<noteq> None"
    with wf show ?thesis by (auto simp: cache_miss_def cache_wf_called)
  next
    fix s tm
    assume "GetOrCreate pf params st =
              GetOrCreate_create pf params (sessionKey params) (called (Call_TagManager_Session tm) st)"
    with create [of "called (Call_TagManager_Session tm) st"] wf show ?thesis
      by (simp add: cache_wf_called)
  next
    assume "GetOrCreate pf params st = GetOrCreate_create pf params (sessionKey params) st"
    with create [OF wf] show ?thesis by simp
  qed
qed

theorem C7_cache_holds_only_complete_sessions_witness:
  "cache_wf empty_store
   \<and> cache_miss platform_no_datacenter params_dc empty_store
   \<and> datacenter params_dc = ''dc1''
   \<and> Finder_Datacenter platform_no_datacenter 2 ''dc1'' = Inl (Errorf ''datacenter not found'')
   \<and> fst (GetOrCreate platform_no_datacenter params_dc empty_store) =
       Return (Inl (Wrapf (Errorf ''datacenter not found'') ''unable to find datacenter %q''))
   \<and> sessionCache (snd (GetOrCreate platform_no_datacenter params_dc empty_store))
         (sessionKey params_dc) = None
   \<and> cache_wf (snd (GetOrCreate platform_no_datacenter params_dc empty_store))"
proof -
  have miss: "cache_miss platform_no_datacenter params_dc empty_store"
    by (simp add: cache_miss_def empty_store_def)
  have dc: "datacenter params_dc = ''dc1''"
    by (simp add: params_dc_def)
  have finder: "Finder_Datacenter platform_no_datacenter 2 ''dc1'' = Inl (Errorf ''datacenter not found'')"
    by (simp add: platform_no_datacenter_def)
  have res: "fst (GetOrCreate platform_no_datacenter params_dc empty_store) =
       Return (Inl (Wrapf (Errorf ''datacenter not found'') ''unable to find datacenter %q''))"
    by (simp add: session_defs empty_store_def params_dc_def params_ab_c_def
        platform_no_datacenter_def platform_ok_def no_keep_alive_def)
  from C7_cache_holds_only_complete_sessions
         [OF cache_wf_empty_store, of platform_no_datacenter params_dc] res
  have "sessionCache (snd (GetOrCreate platform_no_datacenter params_dc empty_store))
           (sessionKey params_dc) = None
      \<and> cache_wf (snd (GetOrCreate platform_no_datacenter params_dc empty_store))"
    by simp
  with cache_wf_empty_store miss dc finder res show ?thesis by simp
qed

text \<open>
  C10.  The session key is the concatenation of server, user name and datacenter with no
  separator, and it is not injective: the configurations (\<open>ab\<close>, \<open>c\<close>, empty) and
  (\<open>a\<close>, \<open>bc\<close>, empty) have the same key.  After a \<open>GetOrCreate\<close> for the first has
  stored its Session, a \<open>GetOrCreate\<close> for the second returns that same Session without a
  single call to the platform, although on an empty cache it returns another one.
\<close>

theorem C10_session_key_not_injective:
  "(\<forall>params. sessionKey params = server params @ Username (userinfo params) @ datacenter params)
   \<and> sessionKey params_ab_c = sessionKey params_a_bc
   \<and> server params_ab_c \<noteq> server params_a_bc
   \<and> Username (userinfo params_ab_c) \<noteq> Username (userinfo params_a_bc)
   \<and> fst (GetOrCreate platform_ok params_ab_c empty_store) = Return (Inr session_ab_c)
   \<and> fst (GetOrCreate platform_ok params_a_bc
            (snd (GetOrCreate platform_ok params_ab_c empty_store))) = Return (Inr session_ab_c)
   \<and> platformCalls (snd (GetOrCreate platform_ok params_a_bc
            (snd (GetOrCreate platform_ok params_ab_c empty_store))))
       = platformCalls (snd (GetOrCreate platform_ok params_ab_c empty_store))
   \<and> fst (GetOrCreate platform_ok params_a_bc empty_store) \<noteq> Return (Inr session_ab_c)"
  by (simp add: session_defs empty_store_def params_ab_c_def params_a_bc_def session_ab_c_def
      platform_ok_def no_keep_alive_def)


section \<open>Properties of the VM reconciler\<close>


lemma reconcileNetwork_BiosUUID:
  "vm_Spec_BiosUUID (reconcileNetwork v vm) = vm_Spec_BiosUUID v"
  by (simp add: reconcileNetwork_def Let_def)

text \<open>
  C3.  When a pass of \<open>reconcileNormal\<close> has called the lifecycle service and the service
  reported state ready with an empty persistent identifier, the pass returns an error and
  the identifier of the VM resource is what it was before the pass; an identifier already
  set, such as \<open>abc\<close>, is not overwritten with the empty value.
\<close>

theorem C3_ready_without_identifier_is_an_error:
  assumes call: "ReconcileVMCall arg (Inr vm) \<in>
                   set (vp_calls (vmReconciler_reconcileNormal vmService vsphereVM))"
    and ready: "State vm = VirtualMachineStateReady"
    and empty: "BiosUUID vm = []"
  shows "vp_err (vmReconciler_reconcileNormal vmService vsphereVM) =
           Some (Errorf ''bios uuid is empty while VM is ready'')
       \<and> vm_Spec_BiosUUID (vp_vm (vmReconciler_reconcileNormal vmService vsphereVM)) =
           vm_Spec_BiosUUID vsphereVM"
  using assms
  by (auto simp: vmReconciler_reconcileNormal_def Let_def split: if_splits sum.splits)

theorem C3_witness:
  "ReconcileVMCall
      (example_vm\<lparr>vm_Finalizers := [VMFinalizer]\<rparr>)
      (Inr \<lparr>State = VirtualMachineStateReady, BiosUUID = [], Network = []\<rparr>)
     \<in> set (vp_calls (vmReconciler_reconcileNormal service_ready_empty example_vm))
   \<and> vm_Spec_BiosUUID example_vm = ''abc''
   \<and> vp_err (vmReconciler_reconcileNormal service_ready_empty example_vm) =
        Some (Errorf ''bios uuid is empty while VM is ready'')
   \<and> vm_Spec_BiosUUID (vp_vm (vmReconciler_reconcileNormal service_ready_empty example_vm)) = ''abc''"
proof -
  have call: "ReconcileVMCall
      (example_vm\<lparr>vm_Finalizers := [VMFinalizer]\<rparr>)
      (Inr \<lparr>State = VirtualMachineStateReady, BiosUUID = [], Network = []\<rparr>)
     \<in> set (vp_calls (vmReconciler_reconcileNormal service_ready_empty example_vm))"
    by (simp add: vmReconciler_reconcileNormal_def example_vm_def service_ready_empty_def
        AddFinalizer_def isWaitingForStaticIPAllocation_def Let_def)
  have id: "vm_Spec_BiosUUID example_vm = ''abc''"
    by (simp add: example_vm_def)
  from C3_ready_without_identifier_is_an_error [OF call] id call show ?thesis
    by simp
qed

text \<open>
  C4, as the code has it.  A pass of \<open>reconcileNormal\<close> never overwrites the persistent
  identifier with an empty value: when the lifecycle service was called and reported
  state ready with a non-empty identifier, the field holds the reported identifier after
  the pass, whether or not it was set before; in every other case the field is left as it
  was.  A non-empty identifier therefore stays non-empty.
\<close>

theorem C4_identifier_follows_ready_report:
  "(\<forall>arg vm. ReconcileVMCall arg (Inr vm) \<in>
        set (vp_calls (vmReconciler_reconcileNormal vmService vsphereVM))
      \<and> State vm = VirtualMachineStateReady \<and> BiosUUID vm \<noteq> []
      \<longrightarrow> vm_Spec_BiosUUID (vp_vm (vmReconciler_reconcileNormal vmService vsphereVM)) = BiosUUID vm)
   \<and> (vm_Spec_BiosUUID (vp_vm (vmReconciler_reconcileNormal vmService vsphereVM)) =
         vm_Spec_BiosUUID vsphereVM
      \<or> (\<exists>arg vm. ReconcileVMCall arg (Inr vm) \<in>
              set (vp_calls (vmReconciler_reconcileNormal vmService vsphereVM))
            \<and> State vm = VirtualMachineStateReady \<and> BiosUUID vm \<noteq> []
            \<and> vm_Spec_BiosUUID (vp_vm (vmReconciler_reconcileNormal vmService vsphereVM)) = BiosUUID vm))
   \<and> (vm_Spec_BiosUUID vsphereVM \<noteq> [] \<longrightarrow>
        vm_Spec_BiosUUID (vp_vm (vmReconciler_reconcileNormal vmService vsphereVM)) \<noteq> [])"
  by (auto simp: vmReconciler_reconcileNormal_def Let_def reconcileNetwork_BiosUUID
      split: if_splits sum.splits)

theorem C4_identifier_follows_ready_report_witness:
  "ReconcileVMCall example_vm
      (ReconcileVM service_ready_xyz example_vm)
     \<in> set (vp_calls (vmReconciler_reconcileNormal service_ready_xyz example_vm))
   \<and> State (projr (ReconcileVM service_ready_xyz example_vm)) = VirtualMachineStateReady
   \<and> vm_Spec_BiosUUID example_vm = ''abc''
   \<and> vm_Spec_BiosUUID (vp_vm (vmReconciler_reconcileNormal service_ready_xyz example_vm)) = ''xyz''"
proof -
  let ?vm = "\<lparr>State = VirtualMachineStateReady, BiosUUID = ''xyz'',
         Network = [\<lparr>ns_MACAddr = ''00:50:56:00:00:01'', ns_IPAddrs = [''10.0.0.7'']\<rparr>]\<rparr>"
  have answer: "ReconcileVM service_ready_xyz example_vm = Inr ?vm"
    by (simp add: service_ready_xyz_def)
  have call: "ReconcileVMCall example_vm (Inr ?vm)
     \<in> set (vp_calls (vmReconciler_reconcileNormal service_ready_xyz example_vm))"
    by (simp add: vmReconciler_reconcileNormal_def example_vm_def service_ready_xyz_def
        AddFinalizer_def isWaitingForStaticIPAllocation_def Let_def)
  have "vm_Spec_BiosUUID (vp_vm (vmReconciler_reconcileNormal service_ready_xyz example_vm)) =
          BiosUUID ?vm"
    using C4_identifier_follows_ready_report [of service_ready_xyz example_vm] call
    by (metis VirtualMachine.select_convs(1) VirtualMachine.select_convs(2) list.distinct(1))
  moreover have "vm_Spec_BiosUUID example_vm = ''abc''"
    by (simp add: example_vm_def)
  ultimately show ?thesis using call answer by simp
qed

theorem C4_counterexample:
  "vm_Spec_BiosUUID example_vm = ''abc''
   \<and> vm_Spec_BiosUUID (vp_vm (vmReconciler_reconcileNormal service_ready_xyz example_vm)) = ''xyz''"
  by (simp add: vmReconciler_reconcileNormal_def example_vm_def service_ready_xyz_def
      AddFinalizer_def isWaitingForStaticIPAllocation_def reconcileNetwork_def Let_def)




end
